theory Spec2Isabelle
  imports Complex_Main "HOL-Library.AList"
begin

section \<open>Identifiers, values and documents\<close>

text \<open>
  An \<open>ObjectId\<close> of the MongoDB driver is twelve bytes, shown as a hexadecimal string.
  The concepts only compare identifiers (\<open>equals\<close>, or \<open>toString() !== toString()\<close>) and
  print them, so an identifier is modelled by its hexadecimal string.
\<close>

datatype ObjectId = ObjectId (toHexString: string)

text \<open>
  The field values the concepts store: an identifier, a string, an array of identifiers,
  and JavaScript's \<open>undefined\<close> (what \<open>community?.members\<close> is when the community is
  \<open>null\<close>).
\<close>

datatype val = VId ObjectId | VStr string | VIds "ObjectId list" | VUndefined

text \<open>
  A stored document is its list of fields, \<open>_id\<close> first. A query (the driver's filter
  object) and a patch are lists of fields too. The timestamps \<open>dateCreated\<close> and
  \<open>dateUpdated\<close> of \<open>BaseDoc\<close> are written by the collection only and are read by no
  concept; they are left out.
\<close>

type_synonym doc = "(string \<times> val) list"
type_synonym query = "(string \<times> val) list"
type_synonym collection = "doc list"

section \<open>The error taxonomy\<close>

text \<open>
  \<open>NotFoundError\<close> and \<open>NotAllowedError\<close> are the two root classes of
  \<open>concepts/errors.ts\<close>; raised directly they carry a finished message. Every other
  constructor is a subclass declared in a concept file, carrying its raw identifiers.
\<close>

datatype error =
    NotFoundError string
  | NotAllowedError string
  | FeedItemNoMatchError ObjectId ObjectId
  | FeedItemExistsError ObjectId ObjectId
  | FavoriteItemNoMatchError ObjectId ObjectId
  | FavoriteItemExistsError ObjectId ObjectId
  | CommunityAuthorNoMatchError ObjectId ObjectId
  | CommunityUserNoMatchError ObjectId ObjectId
  | CommunityMemberExistsError ObjectId ObjectId
  | CommunityItemNoMatchError ObjectId ObjectId
  | CommunityItemExistsError ObjectId ObjectId

datatype kind = NotFound | NotAllowed

text \<open>The root class each error class extends.\<close>

fun kind_of :: "error \<Rightarrow> kind" where
  "kind_of (NotFoundError m) = NotFound"
| "kind_of (NotAllowedError m) = NotAllowed"
| "kind_of (FeedItemNoMatchError i f) = NotFound"
| "kind_of (FeedItemExistsError i f) = NotAllowed"
| "kind_of (FavoriteItemNoMatchError u i) = NotFound"
| "kind_of (FavoriteItemExistsError u i) = NotAllowed"
| "kind_of (CommunityAuthorNoMatchError a c) = NotAllowed"
| "kind_of (CommunityUserNoMatchError m c) = NotFound"
| "kind_of (CommunityMemberExistsError m c) = NotAllowed"
| "kind_of (CommunityItemNoMatchError i c) = NotFound"
| "kind_of (CommunityItemExistsError i c) = NotAllowed"

section \<open>Promises\<close>

text \<open>
  Every action and assertion is an \<open>async\<close> function. A call that is awaited hands its
  rejection to the caller: that is the \<open>case ... of Inl e \<Rightarrow> ...\<close> of the actions below.
  A call that is not awaited leaves a promise nobody reads: whether it is fulfilled or
  rejected, the caller goes on with the next statement and never receives the rejection.
  \<open>unawaited p k\<close> is the continuation \<open>k\<close> after such a call \<open>p\<close>: what the action
  itself does and settles to.

  The rejection of \<open>p\<close> is not gone. No statement of the sources attaches a handler to
  such a promise, so it is an unhandled rejection, which under the default of Node.js is
  raised as an uncaught exception and ends the process. \<open>rejections p\<close> is what the call
  \<open>p\<close> leaves unhandled, and for every action with a call that is not awaited a
  definition \<open>..._unhandled\<close> below gives the rejections the action leaves. The outcome
  of such an action is what its caller gets where the process goes on; where its
  \<open>..._unhandled\<close> is not empty, the default runtime ends before the caller gets it.
\<close>

definition unawaited :: "error + 'a \<Rightarrow> 'b \<Rightarrow> 'b" where
  "unawaited p k = k"

definition rejections :: "error + 'a \<Rightarrow> error list" where
  "rejections p = (case p of Inl e \<Rightarrow> [e] | Inr x \<Rightarrow> [])"

section \<open>The generic collection\<close>

text \<open>
  Modelled from the spec: \<open>framework/doc.ts\<close> (class \<open>DocCollection\<close>) is missing from
  the sources. A query matches a document when the document has every field of the query
  with the queried value; a field the document lacks matches nothing. (All queried values
  in the concepts are identifiers or strings.)
\<close>

definition matches :: "query \<Rightarrow> doc \<Rightarrow> bool" where
  "matches q d = list_all (\<lambda>(k, v). map_of d k = Some v) q"

text \<open>
  Modelled from the spec: \<open>createOne(fields) -> id\<close> of the missing \<open>DocCollection\<close>.
  The identifier the driver generates for the new document is an input, \<open>fresh\<close>; the
  driver never generates the identifier of a stored document, and nothing below rests on
  that.
\<close>

definition createOne :: "collection \<Rightarrow> ObjectId \<Rightarrow> doc \<Rightarrow> ObjectId \<times> collection" where
  "createOne c fresh fields = (fresh, c @ [(''_id'', VId fresh) # fields])"

text \<open>
  Modelled from the spec: \<open>readOne(filter) -> document-or-absent\<close> of the missing
  \<open>DocCollection\<close>; it never throws, \<open>None\<close> is \<open>null\<close>.
\<close>

definition readOne :: "collection \<Rightarrow> query \<Rightarrow> doc option" where
  "readOne c q = find (matches q) c"

text \<open>
  Modelled from the spec: \<open>readMany(filter) -> sequence of documents\<close> of the missing
  \<open>DocCollection\<close>; it never throws and gives the empty sequence when nothing matches.
\<close>

definition readMany :: "collection \<Rightarrow> query \<Rightarrow> doc list" where
  "readMany c q = filter (matches q) c"

text \<open>
  Modelled from the spec: \<open>partialUpdateOne(filter, patch) -> ok\<close> of the missing
  \<open>DocCollection\<close>: it replaces only the given fields, in the first document that
  matches, and does nothing when none matches.
\<close>

fun partialUpdateOne :: "collection \<Rightarrow> query \<Rightarrow> doc \<Rightarrow> collection" where
  "partialUpdateOne [] q patch = []"
| "partialUpdateOne (d # c) q patch =
     (if matches q d then fold (\<lambda>(k, v). AList.update k v) patch d # c
      else d # partialUpdateOne c q patch)"

text \<open>
  Modelled from the spec: \<open>deleteOne(filter) -> ok\<close> of the missing \<open>DocCollection\<close>:
  it removes the first document that matches, and does nothing when none matches.
\<close>

fun deleteOne :: "collection \<Rightarrow> query \<Rightarrow> collection" where
  "deleteOne [] q = []"
| "deleteOne (d # c) q = (if matches q d then c else d # deleteOne c q)"

section \<open>Feeding (src/server/concepts/feeding.ts)\<close>

text \<open>
  Both assertions query the field \<open>community\<close>; a \<open>FeedDoc\<close> has the fields \<open>feed\<close>
  and \<open>item\<close>. Their parameters are \<open>(_id, itemId)\<close>.
\<close>

definition Feeding_assertItemInFeed :: "collection \<Rightarrow> ObjectId \<Rightarrow> ObjectId \<Rightarrow> error + unit" where
  "Feeding_assertItemInFeed feeds oid itemId =
     (let item = readOne feeds [(''community'', VId oid), (''item'', VId itemId)]
      in if item = None then Inl (FeedItemNoMatchError itemId oid) else Inr ())"

definition Feeding_assertItemNotInFeed :: "collection \<Rightarrow> ObjectId \<Rightarrow> ObjectId \<Rightarrow> error + unit" where
  "Feeding_assertItemNotInFeed feeds oid itemId =
     (let item = readOne feeds [(''community'', VId oid), (''item'', VId itemId)]
      in if item \<noteq> None then Inl (FeedItemExistsError itemId oid) else Inr ())"

text \<open>
  An action returns its outcome (the error it is rejected with, or its result) and the
  collection as it leaves it. \<open>addItem\<close> and \<open>deleteItem\<close> call the assertions with
  \<open>(item, feed)\<close>.
\<close>

definition Feeding_addItem ::
  "collection \<Rightarrow> ObjectId \<Rightarrow> ObjectId \<Rightarrow> ObjectId \<Rightarrow> (error + string) \<times> collection" where
  "Feeding_addItem feeds fresh item feed =
     (case Feeding_assertItemNotInFeed feeds item feed of
        Inl e \<Rightarrow> (Inl e, feeds)
      | Inr u \<Rightarrow>
          (let feeds' = snd (createOne feeds fresh [(''feed'', VId feed), (''item'', VId item)])
           in (Inr ''An item has been added to a feed!'', feeds')))"

definition Feeding_deleteItem ::
  "collection \<Rightarrow> ObjectId \<Rightarrow> ObjectId \<Rightarrow> (error + string) \<times> collection" where
  "Feeding_deleteItem feeds item feed =
     (case Feeding_assertItemInFeed feeds item feed of
        Inl e \<Rightarrow> (Inl e, feeds)
      | Inr u \<Rightarrow>
          (let feeds' = deleteOne feeds [(''feed'', VId feed), (''item'', VId item)]
           in (Inr ''An item has been deleted from the community!'', feeds')))"

definition Feeding_getItems :: "collection \<Rightarrow> ObjectId \<Rightarrow> doc list" where
  "Feeding_getItems feeds feed = readMany feeds [(''feed'', VId feed)]"

section \<open>Featuring (src/unnamed/part_001)\<close>

text \<open>
  A JavaScript \<open>number\<close>: a real, an infinity, or \<open>NaN\<close> (\<open>+attention\<close> of a request
  string that is no numeral). \<open>num_lt\<close> is \<open><\<close> and \<open>num_ge\<close> is \<open>>=\<close>; both are false
  when an operand is \<open>NaN\<close>.
\<close>

datatype number = Num real | PosInf | NegInf | NaN

fun num_lt :: "number \<Rightarrow> number \<Rightarrow> bool" where
  "num_lt NaN b = False"
| "num_lt a NaN = False"
| "num_lt (Num a) (Num b) = (a < b)"
| "num_lt NegInf b = (b \<noteq> NegInf)"
| "num_lt a PosInf = (a \<noteq> PosInf)"
| "num_lt a b = False"

definition num_ge :: "number \<Rightarrow> number \<Rightarrow> bool" where
  "num_ge a b = (a \<noteq> NaN \<and> b \<noteq> NaN \<and> \<not> num_lt a b)"

text \<open>Every object is truthy, so \<open>!item\<close> is false for each \<open>ObjectId\<close>.\<close>

definition truthy :: "ObjectId \<Rightarrow> bool" where
  "truthy x = True"

text \<open>
  Both assertions start the read without awaiting it and then test \<open>item\<close>, their
  parameter, not \<open>feature\<close>.
\<close>

definition Featuring_assertItemIsFeatured :: "collection \<Rightarrow> ObjectId \<Rightarrow> error + unit" where
  "Featuring_assertItemIsFeatured features item =
     unawaited (Inr (readOne features [(''item'', VId item)]) :: error + doc option)
       (if \<not> truthy item then Inl (NotFoundError ''Item is not featured!'') else Inr ())"

definition Featuring_assertItemIsNotFeatured :: "collection \<Rightarrow> ObjectId \<Rightarrow> error + unit" where
  "Featuring_assertItemIsNotFeatured features item =
     unawaited (Inr (readOne features [(''item'', VId item)]) :: error + doc option)
       (if truthy item then Inl (NotAllowedError ''Item is already featured!'') else Inr ())"

text \<open>
  \<open>promote\<close> and \<open>depromote\<close> call their assertion without \<open>await\<close>. The concept's
  \<open>minimumAttention\<close> is the parameter \<open>minimumAttention\<close>.
\<close>

definition Featuring_promote ::
  "collection \<Rightarrow> number \<Rightarrow> ObjectId \<Rightarrow> ObjectId \<Rightarrow> number \<Rightarrow> (error + string) \<times> collection" where
  "Featuring_promote features minimumAttention fresh item attention =
     unawaited (Featuring_assertItemIsNotFeatured features item)
       (if num_ge attention minimumAttention
        then (let features' = snd (createOne features fresh [(''item'', VId item)])
              in (Inr ''An item has been added to a feed!'', features'))
        else (Inr ''The item didn't meet the minimum attention.'', features))"

definition Featuring_depromote ::
  "collection \<Rightarrow> number \<Rightarrow> ObjectId \<Rightarrow> number \<Rightarrow> (error + string) \<times> collection" where
  "Featuring_depromote features minimumAttention item attention =
     unawaited (Featuring_assertItemIsFeatured features item)
       (if num_lt attention minimumAttention
        then (let features' = deleteOne features [(''item'', VId item)]
              in (Inr ''An item has been depromoted'', features'))
        else (Inr ''The item still has the minimum attention.'', features))"

text \<open>The rejections \<open>promote\<close> and \<open>depromote\<close> leave unhandled: those of their assertion.\<close>

definition Featuring_promote_unhandled :: "collection \<Rightarrow> ObjectId \<Rightarrow> error list" where
  "Featuring_promote_unhandled features item =
     rejections (Featuring_assertItemIsNotFeatured features item)"

definition Featuring_depromote_unhandled :: "collection \<Rightarrow> ObjectId \<Rightarrow> error list" where
  "Featuring_depromote_unhandled features item =
     rejections (Featuring_assertItemIsFeatured features item)"

section \<open>Favoriting (src/server/concepts/favoriting.ts)\<close>

definition Favoriting_assertItemIsFavorite ::
  "collection \<Rightarrow> ObjectId \<Rightarrow> ObjectId \<Rightarrow> error + unit" where
  "Favoriting_assertItemIsFavorite favorites user item =
     (let favorite = readOne favorites [(''user'', VId user), (''item'', VId item)]
      in if favorite = None then Inl (FavoriteItemNoMatchError user item) else Inr ())"

definition Favoriting_assertItemIsNotFavorite ::
  "collection \<Rightarrow> ObjectId \<Rightarrow> ObjectId \<Rightarrow> error + unit" where
  "Favoriting_assertItemIsNotFavorite favorites user item =
     (let favorite = readOne favorites [(''user'', VId user), (''item'', VId item)]
      in if favorite \<noteq> None then Inl (FavoriteItemExistsError user item) else Inr ())"

text \<open>
  \<open>favorite\<close> and \<open>unfavorite\<close> call their assertion without \<open>await\<close>. \<open>favorite\<close>
  returns the message and the document it reads back.
\<close>

definition Favoriting_favorite ::
  "collection \<Rightarrow> ObjectId \<Rightarrow> ObjectId \<Rightarrow> ObjectId
     \<Rightarrow> (error + string \<times> doc option) \<times> collection" where
  "Favoriting_favorite favorites fresh user item =
     unawaited (Favoriting_assertItemIsNotFavorite favorites user item)
       (let (oid, favorites') = createOne favorites fresh [(''user'', VId user), (''item'', VId item)]
        in (Inr (''A user has favorited an item!'', readOne favorites' [(''_id'', VId oid)]),
            favorites'))"

definition Favoriting_unfavorite ::
  "collection \<Rightarrow> ObjectId \<Rightarrow> ObjectId \<Rightarrow> (error + string) \<times> collection" where
  "Favoriting_unfavorite favorites user item =
     unawaited (Favoriting_assertItemIsFavorite favorites user item)
       (let favorites' = deleteOne favorites [(''user'', VId user), (''item'', VId item)]
        in (Inr ''A user has unfavorited an item!'', favorites'))"

text \<open>The rejections \<open>favorite\<close> and \<open>unfavorite\<close> leave unhandled.\<close>

definition Favoriting_favorite_unhandled ::
  "collection \<Rightarrow> ObjectId \<Rightarrow> ObjectId \<Rightarrow> error list" where
  "Favoriting_favorite_unhandled favorites user item =
     rejections (Favoriting_assertItemIsNotFavorite favorites user item)"

definition Favoriting_unfavorite_unhandled ::
  "collection \<Rightarrow> ObjectId \<Rightarrow> ObjectId \<Rightarrow> error list" where
  "Favoriting_unfavorite_unhandled favorites user item =
     rejections (Favoriting_assertItemIsFavorite favorites user item)"

text \<open>
  \<open>getNumFavorites\<close> returns \<open>{numFavorites: n}\<close>, here \<open>n\<close>. The source tests
  \<open>favs === null\<close>; \<open>readMany\<close> gives an array, so \<open>favs\<close> is \<open>Some\<close> array.
\<close>

definition Favoriting_getNumFavorites :: "collection \<Rightarrow> ObjectId \<Rightarrow> error + nat" where
  "Favoriting_getNumFavorites favorites item =
     (let favs = Some (readMany favorites [(''item'', VId item)])
      in case favs of None \<Rightarrow> Inr 0 | Some fs \<Rightarrow> Inr (length fs))"

definition Favoriting_getFavorites :: "collection \<Rightarrow> ObjectId \<Rightarrow> doc list" where
  "Favoriting_getFavorites favorites user = readMany favorites [(''user'', VId user)]"

section \<open>Communiting: what both revisions share\<close>

text \<open>
  The sources hold two revisions of \<open>CommunitingConcept\<close>:
  \<open>src/server/concepts/communiting.ts\<close> and \<open>src/unnamed/part_000\<close>. The definitions of
  this section are the same text in both. A definition that differs is given twice, the
  one of \<open>part_000\<close> with the suffix \<open>_part000\<close>.
\<close>

text \<open>
  \<open>community.members\<close> and \<open>community.items\<close>: \<open>CommunityDoc\<close> declares both as
  \<open>ObjectId[]\<close>, and \<open>create\<close>, the one writer of new documents, stores an array.
  For a document without the array the accessor gives the empty list.
\<close>

definition members_of :: "doc \<Rightarrow> ObjectId list" where
  "members_of community = (case map_of community ''members'' of Some (VIds ms) \<Rightarrow> ms | _ \<Rightarrow> [])"


definition author_of :: "doc \<Rightarrow> val" where
  "author_of community = (case map_of community ''author'' of Some v \<Rightarrow> v | None \<Rightarrow> VUndefined)"

text \<open>\<open>community?.members\<close> and \<open>community?.items\<close>: \<open>undefined\<close> when the community is \<open>null\<close>.\<close>

definition optional_members :: "doc option \<Rightarrow> val" where
  "optional_members community =
     (case community of None \<Rightarrow> VUndefined | Some c \<Rightarrow> VIds (members_of c))"


text \<open>\<open>arr?.push(x)\<close>: appends to an array, does nothing on \<open>undefined\<close>.\<close>

fun push :: "val \<Rightarrow> ObjectId \<Rightarrow> val" where
  "push (VIds xs) x = VIds (xs @ [x])"
| "push v x = v"

text \<open>\<open>arr?.filter((e) => e.toString() !== x.toString())\<close>.\<close>

fun filter_out :: "val \<Rightarrow> ObjectId \<Rightarrow> val" where
  "filter_out (VIds xs) x = VIds (filter (\<lambda>e. toHexString e \<noteq> toHexString x) xs)"
| "filter_out v x = v"

definition Communiting_delete :: "collection \<Rightarrow> ObjectId \<Rightarrow> (error + string) \<times> collection" where
  "Communiting_delete communities oid =
     (let communities' = deleteOne communities [(''_id'', VId oid)]
      in (Inr ''Community Succesfully Deleted!'', communities'))"

definition Communiting_getCommunityByID :: "collection \<Rightarrow> ObjectId \<Rightarrow> doc option" where
  "Communiting_getCommunityByID communities oid = readOne communities [(''_id'', VId oid)]"

definition Communiting_getCommunityByTitle :: "collection \<Rightarrow> string \<Rightarrow> doc option" where
  "Communiting_getCommunityByTitle communities title = readOne communities [(''title'', VStr title)]"

text \<open>The message of \<open>new NotFoundError(`Community ${_id} doesn't exist!`)\<close>.\<close>

definition doesnt_exist :: "ObjectId \<Rightarrow> error" where
  "doesnt_exist oid = NotFoundError (''Community '' @ toHexString oid @ '' doesn't exist!'')"

text \<open>\<open>getNumMembers\<close> returns \<open>{numMembers: members.length}\<close>, here the length.\<close>

definition Communiting_getNumMembers :: "collection \<Rightarrow> ObjectId \<Rightarrow> error + nat" where
  "Communiting_getNumMembers communities oid =
     (case Communiting_getCommunityByID communities oid of
        None \<Rightarrow> Inl (doesnt_exist oid)
      | Some community \<Rightarrow> Inr (length (members_of community)))"

fun checkObjectIdInArray :: "ObjectId \<Rightarrow> ObjectId list \<Rightarrow> bool" where
  "checkObjectIdInArray oid [] = False"
| "checkObjectIdInArray oid (x # arr) = (if oid = x then True else checkObjectIdInArray oid arr)"

definition Communiting_assertAuthorIsUser ::
  "collection \<Rightarrow> ObjectId \<Rightarrow> ObjectId \<Rightarrow> error + unit" where
  "Communiting_assertAuthorIsUser communities oid user =
     (case Communiting_getCommunityByID communities oid of
        None \<Rightarrow> Inl (doesnt_exist oid)
      | Some community \<Rightarrow>
          if author_of community \<noteq> VId user then Inl (CommunityAuthorNoMatchError user oid)
          else Inr ())"

definition Communiting_assertUserInCommunity ::
  "collection \<Rightarrow> ObjectId \<Rightarrow> ObjectId \<Rightarrow> error + unit" where
  "Communiting_assertUserInCommunity communities oid user =
     (case Communiting_getCommunityByID communities oid of
        None \<Rightarrow> Inl (doesnt_exist oid)
      | Some community \<Rightarrow>
          if \<not> checkObjectIdInArray user (members_of community)
          then Inl (CommunityUserNoMatchError user oid)
          else Inr ())"

section \<open>Communiting (src/server/concepts/communiting.ts)\<close>

text \<open>
  In this revision \<open>assertUserNotInCommunity\<close>, \<open>assertItemInCommunity\<close> and
  \<open>assertItemNotInCommunity\<close> all throw \<open>CommunityUserNoMatchError\<close>.
\<close>

definition Communiting_assertUserNotInCommunity ::
  "collection \<Rightarrow> ObjectId \<Rightarrow> ObjectId \<Rightarrow> error + unit" where
  "Communiting_assertUserNotInCommunity communities oid user =
     (case Communiting_getCommunityByID communities oid of
        None \<Rightarrow> Inl (doesnt_exist oid)
      | Some community \<Rightarrow>
          if checkObjectIdInArray user (members_of community)
          then Inl (CommunityUserNoMatchError user oid)
          else Inr ())"



definition Communiting_assertCommunityNotExists :: "collection \<Rightarrow> string \<Rightarrow> error + unit" where
  "Communiting_assertCommunityNotExists communities title =
     (let community = Communiting_getCommunityByTitle communities title
      in if community \<noteq> None then Inl (NotAllowedError ''Community already exists'')
         else Inr ())"

text \<open>\<open>create\<close> calls \<open>assertCommunityNotExists\<close> without \<open>await\<close>.\<close>

definition Communiting_create ::
  "collection \<Rightarrow> ObjectId \<Rightarrow> ObjectId \<Rightarrow> string \<Rightarrow> string
     \<Rightarrow> (error + string \<times> doc option) \<times> collection" where
  "Communiting_create communities fresh author title description =
     unawaited (Communiting_assertCommunityNotExists communities title)
       (let newItemsArray = [];
            newMembersArray = [author];
            (oid, communities') = createOne communities fresh
               [(''author'', VId author), (''title'', VStr title),
                (''description'', VStr description), (''items'', VIds newItemsArray),
                (''members'', VIds newMembersArray)]
        in (Inr (''Community Succesfully Created!'', readOne communities' [(''_id'', VId oid)]),
            communities'))"

text \<open>The rejections \<open>create\<close> of this revision leaves unhandled.\<close>

definition Communiting_create_unhandled :: "collection \<Rightarrow> string \<Rightarrow> error list" where
  "Communiting_create_unhandled communities title =
     rejections (Communiting_assertCommunityNotExists communities title)"

text \<open>
  The assertions take \<open>(_id, user)\<close> and \<open>(_id, item)\<close>; \<open>join\<close>, \<open>leave\<close>,
  \<open>addItem\<close> and \<open>deleteItem\<close> of this revision pass \<open>(user, _id)\<close> and \<open>(item, _id)\<close>.
\<close>

definition Communiting_join ::
  "collection \<Rightarrow> ObjectId \<Rightarrow> ObjectId \<Rightarrow> (error + string) \<times> collection" where
  "Communiting_join communities user oid =
     (let community = Communiting_getCommunityByID communities oid
      in case Communiting_assertUserNotInCommunity communities user oid of
           Inl e \<Rightarrow> (Inl e, communities)
         | Inr u \<Rightarrow>
             (let newMembersArray = push (optional_members community) user;
                  communities' = partialUpdateOne communities [(''_id'', VId oid)]
                                   [(''members'', newMembersArray)]
              in (Inr ''A user has joined the community!'', communities')))"

definition Communiting_leave ::
  "collection \<Rightarrow> ObjectId \<Rightarrow> ObjectId \<Rightarrow> (error + string) \<times> collection" where
  "Communiting_leave communities user oid =
     (let community = Communiting_getCommunityByID communities oid
      in case Communiting_assertUserInCommunity communities user oid of
           Inl e \<Rightarrow> (Inl e, communities)
         | Inr u \<Rightarrow>
             (let oldMembersArray = optional_members community;
                  newMembersArray = filter_out oldMembersArray user;
                  communities' = partialUpdateOne communities [(''_id'', VId oid)]
                                   [(''members'', newMembersArray)]
              in (Inr ''A user has left the community!'', communities')))"



section \<open>Communiting (src/unnamed/part_000)\<close>

text \<open>
  This revision has no \<open>items\<close>. Its \<open>create\<close> awaits the assertion, its \<open>join\<close> and
  \<open>leave\<close> pass \<open>(_id, user)\<close>, and \<open>assertUserNotInCommunity\<close> throws
  \<open>CommunityMemberExistsError\<close>.
\<close>

definition Communiting_assertUserNotInCommunity_part000 ::
  "collection \<Rightarrow> ObjectId \<Rightarrow> ObjectId \<Rightarrow> error + unit" where
  "Communiting_assertUserNotInCommunity_part000 communities oid user =
     (case Communiting_getCommunityByID communities oid of
        None \<Rightarrow> Inl (doesnt_exist oid)
      | Some community \<Rightarrow>
          if checkObjectIdInArray user (members_of community)
          then Inl (CommunityMemberExistsError user oid)
          else Inr ())"

definition Communiting_assertCommunityNotExists_part000 ::
  "collection \<Rightarrow> string \<Rightarrow> error + unit" where
  "Communiting_assertCommunityNotExists_part000 communities title =
     (let community = Communiting_getCommunityByTitle communities title
      in if community \<noteq> None then Inl (NotAllowedError ''Community already exists!'')
         else Inr ())"

definition Communiting_assertCommunityExists_part000 ::
  "collection \<Rightarrow> ObjectId \<Rightarrow> error + unit" where
  "Communiting_assertCommunityExists_part000 communities oid =
     (let community = Communiting_getCommunityByID communities oid
      in if community = None then Inl (NotFoundError ''Community doesn't exist!'')
         else Inr ())"

definition Communiting_create_part000 ::
  "collection \<Rightarrow> ObjectId \<Rightarrow> ObjectId \<Rightarrow> string \<Rightarrow> string
     \<Rightarrow> (error + string \<times> doc option) \<times> collection" where
  "Communiting_create_part000 communities fresh author title description =
     (case Communiting_assertCommunityNotExists_part000 communities title of
        Inl e \<Rightarrow> (Inl e, communities)
      | Inr u \<Rightarrow>
          (let newMembersArray = [author];
               (oid, communities') = createOne communities fresh
                  [(''author'', VId author), (''title'', VStr title),
                   (''description'', VStr description), (''members'', VIds newMembersArray)]
           in (Inr (''Community Succesfully Created!'',
                    readOne communities' [(''_id'', VId oid)]),
               communities')))"

definition Communiting_join_part000 ::
  "collection \<Rightarrow> ObjectId \<Rightarrow> ObjectId \<Rightarrow> (error + string) \<times> collection" where
  "Communiting_join_part000 communities user oid =
     (let community = Communiting_getCommunityByID communities oid
      in case Communiting_assertUserNotInCommunity_part000 communities oid user of
           Inl e \<Rightarrow> (Inl e, communities)
         | Inr u \<Rightarrow>
             (let newMembersArray = push (optional_members community) user;
                  communities' = partialUpdateOne communities [(''_id'', VId oid)]
                                   [(''members'', newMembersArray)]
              in (Inr ''A user has joined the community!'', communities')))"

definition Communiting_leave_part000 ::
  "collection \<Rightarrow> ObjectId \<Rightarrow> ObjectId \<Rightarrow> (error + string) \<times> collection" where
  "Communiting_leave_part000 communities user oid =
     (let community = Communiting_getCommunityByID communities oid
      in case Communiting_assertUserInCommunity communities oid user of
           Inl e \<Rightarrow> (Inl e, communities)
         | Inr u \<Rightarrow>
             (let oldMembersArray = optional_members community;
                  newMembersArray = filter_out oldMembersArray user;
                  communities' = partialUpdateOne communities [(''_id'', VId oid)]
                                   [(''members'', newMembersArray)]
              in (Inr ''A user has left the community!'', communities')))"

section \<open>Error messages\<close>

text \<open>
  The name of an error's class, the template its constructor hands to \<open>super\<close>, and the
  raw arguments it hands over with it (identifiers, printed by \<open>toString\<close>). An error of
  a root class raised directly has its message for template and no argument.
\<close>

fun class_of :: "error \<Rightarrow> string" where
  "class_of (NotFoundError m) = ''NotFoundError''"
| "class_of (NotAllowedError m) = ''NotAllowedError''"
| "class_of (FeedItemNoMatchError i f) = ''FeedItemNoMatchError''"
| "class_of (FeedItemExistsError i f) = ''FeedItemExistsError''"
| "class_of (FavoriteItemNoMatchError u i) = ''FavoriteItemNoMatchError''"
| "class_of (FavoriteItemExistsError u i) = ''FavoriteItemExistsError''"
| "class_of (CommunityAuthorNoMatchError a c) = ''CommunityAuthorNoMatchError''"
| "class_of (CommunityUserNoMatchError m c) = ''CommunityUserNoMatchError''"
| "class_of (CommunityMemberExistsError m c) = ''CommunityMemberExistsError''"
| "class_of (CommunityItemNoMatchError i c) = ''CommunityItemNoMatchError''"
| "class_of (CommunityItemExistsError i c) = ''CommunityItemExistsError''"

fun format :: "error \<Rightarrow> string" where
  "format (NotFoundError m) = m"
| "format (NotAllowedError m) = m"
| "format (FeedItemNoMatchError i f) = ''{0} is not an item of feed {1}''"
| "format (FeedItemExistsError i f) = ''{0} is already an item of feed {1}''"
| "format (FavoriteItemNoMatchError u i) = ''{0} hasnot favorited item {1}''"
| "format (FavoriteItemExistsError u i) = ''{0} has already favorited item {1}''"
| "format (CommunityAuthorNoMatchError a c) = ''{0} is not the author of community {1}''"
| "format (CommunityUserNoMatchError m c) = ''{0} is not a member of community {1}''"
| "format (CommunityMemberExistsError m c) = ''{0} is already a member of community {1}''"
| "format (CommunityItemNoMatchError i c) = ''{0} is not an item of community {1}''"
| "format (CommunityItemExistsError i c) = ''{0} is already an item of community {1}''"

fun raw_args :: "error \<Rightarrow> string list" where
  "raw_args (NotFoundError m) = []"
| "raw_args (NotAllowedError m) = []"
| "raw_args (FeedItemNoMatchError i f) = [toHexString i, toHexString f]"
| "raw_args (FeedItemExistsError i f) = [toHexString i, toHexString f]"
| "raw_args (FavoriteItemNoMatchError u i) = [toHexString u, toHexString i]"
| "raw_args (FavoriteItemExistsError u i) = [toHexString u, toHexString i]"
| "raw_args (CommunityAuthorNoMatchError a c) = [toHexString a, toHexString c]"
| "raw_args (CommunityUserNoMatchError m c) = [toHexString m, toHexString c]"
| "raw_args (CommunityMemberExistsError m c) = [toHexString m, toHexString c]"
| "raw_args (CommunityItemNoMatchError i c) = [toHexString i, toHexString c]"
| "raw_args (CommunityItemExistsError i c) = [toHexString i, toHexString c]"

text \<open>
  Modelled from the spec: the decimal digits of a positional placeholder, for
  \<open>substitute\<close> below (\<open>concepts/errors.ts\<close> is missing from the sources).
\<close>

definition is_digit :: "char \<Rightarrow> bool" where
  "is_digit c = (c \<in> set ''0123456789'')"

text \<open>
  Modelled from the spec: the position a placeholder's digits write, for \<open>substitute\<close>
  below (\<open>concepts/errors.ts\<close> is missing from the sources).
\<close>

definition nat_of_digits :: "string \<Rightarrow> nat" where
  "nat_of_digits ds = foldl (\<lambda>n c. 10 * n + (of_char c - 48)) 0 ds"

text \<open>
  Modelled from the spec: \<open>concepts/errors.ts\<close> is missing from the sources; the spec
  speaks of "a message template with positional placeholders". The templates of the
  sources write the placeholder of argument \<open>n\<close> as \<open>{n}\<close>. \<open>substitute args None t\<close>
  reads the template \<open>t\<close> from left to right, in one pass: \<open>{n}\<close>, with \<open>n\<close> a decimal
  numeral, becomes the \<open>n\<close>-th argument when there is one, and every other character
  stays. The second argument holds the digits read since an open brace, if any.
\<close>

fun substitute :: "string list \<Rightarrow> string option \<Rightarrow> string \<Rightarrow> string" where
  "substitute args None [] = []"
| "substitute args (Some ds) [] = CHR ''{'' # ds"
| "substitute args None (c # cs) =
     (if c = CHR ''{'' then substitute args (Some []) cs else c # substitute args None cs)"
| "substitute args (Some ds) (c # cs) =
     (if is_digit c then substitute args (Some (ds @ [c])) cs
      else if c = CHR ''}'' \<and> ds \<noteq> [] then
        (if nat_of_digits ds < length args then args ! nat_of_digits ds
         else CHR ''{'' # ds @ ''}'') @ substitute args None cs
      else if c = CHR ''{'' then CHR ''{'' # ds @ substitute args (Some []) cs
      else CHR ''{'' # ds @ c # substitute args None cs)"

text \<open>
  Modelled from the spec: \<open>formatWith\<close> of the missing \<open>concepts/errors.ts\<close>: the error's
  template with the given arguments substituted positionally. The result stands for the
  message of the error \<open>formatWith\<close> returns.
\<close>

definition formatWith :: "error \<Rightarrow> string list \<Rightarrow> string" where
  "formatWith e args = substitute args None (format e)"

text \<open>
  Modelled from the spec: the message an error is constructed with, in the missing
  \<open>concepts/errors.ts\<close>: "the raw template (with raw ids substituted positionally)".
\<close>

definition message :: "error \<Rightarrow> string" where
  "message e = formatWith e (raw_args e)"

section \<open>The enrichment registry (src/server/responses.ts)\<close>

type_synonym resolver = "error \<Rightarrow> error + string"
type_synonym registry = "string \<rightharpoonup> resolver"

text \<open>
  Modelled from the spec: \<open>Router.registerError\<close> of the missing \<open>framework/router.ts\<close>:
  a mapping from error kind to resolver; "registering two resolvers for the same kind
  overwrites the earlier one".
\<close>

definition registerError :: "string \<Rightarrow> resolver \<Rightarrow> registry \<Rightarrow> registry" where
  "registerError cls r reg = reg(cls \<mapsto> r)"

text \<open>
  Modelled from the spec: the lookup of the missing \<open>framework/router.ts\<close>: the handler
  "looks up a resolver by the error's concrete kind; if one is registered, it is invoked
  [...] and its result becomes the client-visible message. If no resolver is registered,
  the raw template (with raw ids substituted positionally) is returned." \<open>Inl\<close> is a
  resolver that threw.
\<close>

definition handleError :: "registry \<Rightarrow> error \<Rightarrow> error + string" where
  "handleError reg e = (case reg (class_of e) of Some r \<Rightarrow> r e | None \<Rightarrow> Inr (message e))"

text \<open>
  \<open>Authing.getUserById\<close> (\<open>concepts/authenticating.ts\<close>) is not in the sources: it is
  the parameter \<open>getUserById\<close>, which gives a user document or throws. The resolvers read
  the document's \<open>username\<close>.
\<close>

record UserDoc =
  username :: string

text \<open>\<open>(await Authing.getUserById(id)).username\<close>, then the rest of the resolver.\<close>

definition with_username ::
  "(ObjectId \<Rightarrow> error + UserDoc) \<Rightarrow> ObjectId \<Rightarrow> (string \<Rightarrow> string) \<Rightarrow> error + string" where
  "with_username getUserById uid k =
     (case getUserById uid of Inl err \<Rightarrow> Inl err | Inr user \<Rightarrow> Inr (k (username user)))"

text \<open>
  The registrations of \<open>responses.ts\<close>, in its order, for the error classes the sources
  declare (the classes of \<open>posting.ts\<close> and \<open>friending.ts\<close> are not in the sources). Each
  resolver is registered for one class and is called with errors of that class only.
\<close>

definition Responses_registry :: "(ObjectId \<Rightarrow> error + UserDoc) \<Rightarrow> registry" where
  "Responses_registry getUserById =
     (registerError ''FavoriteItemExistsError''
        (\<lambda>e. case e of FavoriteItemExistsError user item \<Rightarrow>
                 with_username getUserById user (\<lambda>username. formatWith e [username, toHexString item])
               | _ \<Rightarrow> Inr (message e))
     (registerError ''FavoriteItemNoMatchError''
        (\<lambda>e. case e of FavoriteItemNoMatchError user item \<Rightarrow>
                 with_username getUserById user (\<lambda>username. formatWith e [username, toHexString item])
               | _ \<Rightarrow> Inr (message e))
     (registerError ''FeedItemNoMatchError''
        (\<lambda>e. case e of FeedItemNoMatchError item oid \<Rightarrow>
                 Inr (formatWith e [toHexString item, toHexString oid])
               | _ \<Rightarrow> Inr (message e))
     (registerError ''FeedItemExistsError''
        (\<lambda>e. case e of FeedItemExistsError item oid \<Rightarrow>
                 Inr (formatWith e [toHexString item, toHexString oid])
               | _ \<Rightarrow> Inr (message e))
     (registerError ''CommunityMemberExistsError''
        (\<lambda>e. case e of CommunityMemberExistsError member oid \<Rightarrow>
                 with_username getUserById member (\<lambda>username. formatWith e [username, toHexString oid])
               | _ \<Rightarrow> Inr (message e))
     (registerError ''CommunityUserNoMatchError''
        (\<lambda>e. case e of CommunityUserNoMatchError member oid \<Rightarrow>
                 with_username getUserById member (\<lambda>username. formatWith e [username, toHexString oid])
               | _ \<Rightarrow> Inr (message e))
     (registerError ''CommunityAuthorNoMatchError''
        (\<lambda>e. case e of CommunityAuthorNoMatchError author oid \<Rightarrow>
                 with_username getUserById author (\<lambda>username. formatWith e [username, toHexString oid])
               | _ \<Rightarrow> Inr (message e))
      Map.empty)))))))"

section \<open>Sample data\<close>

abbreviation alice :: ObjectId where "alice \<equiv> ObjectId ''a11ce''"
abbreviation bob :: ObjectId where "bob \<equiv> ObjectId ''b0b''"
abbreviation hikers :: ObjectId where "hikers \<equiv> ObjectId ''c0''"
abbreviation item_X :: ObjectId where "item_X \<equiv> ObjectId ''17e''"

section \<open>Properties the claims speak of\<close>

text \<open>"The author is present in the members array", for one community and for all.\<close>

definition author_in_members :: "doc \<Rightarrow> bool" where
  "author_in_members community =
     (case author_of community of VId a \<Rightarrow> a \<in> set (members_of community) | _ \<Rightarrow> False)"

definition authors_are_members :: "collection \<Rightarrow> bool" where
  "authors_are_members communities = list_all author_in_members communities"

section \<open>Facts about the collection\<close>

lemmas collection_defs = readOne_def readMany_def matches_def createOne_def unawaited_def Let_def

lemma deleteOne_no_match: "find (matches q) c = None \<Longrightarrow> deleteOne c q = c"
  by (induction c) (auto split: if_splits)


lemma deleteOne_last: "find (matches q) c = None \<Longrightarrow> matches q d \<Longrightarrow> deleteOne (c @ [d]) q = c"
  by (induction c) (auto split: if_splits)

lemma find_append_new: "find P c = None \<Longrightarrow> P d \<Longrightarrow> find P (c @ [d]) = Some d"
  by (induction c) (auto split: if_splits)

lemma find_append_old: "find P c = Some x \<Longrightarrow> find P (c @ ds) = Some x"
  by (induction c) (auto split: if_splits)

section \<open>Feeding and Featuring: the rejected transitions\<close>

text \<open>
  No document of a feed collection has a field \<open>community\<close> (\<open>addItem\<close>, the one writer,
  stores \<open>_id\<close>, \<open>feed\<close> and \<open>item\<close>). On such a collection \<open>assertItemNotInFeed\<close> never
  throws and \<open>assertItemInFeed\<close> always does, so \<open>addItem\<close> always appends and
  \<open>deleteItem\<close> always fails.
\<close>

lemma Feeding_readOne_community:
  "\<forall>d \<in> set feeds. map_of d ''community'' = None \<Longrightarrow>
   readOne feeds [(''community'', VId x), (''item'', VId y)] = None"
  by (auto simp: readOne_def matches_def find_None_iff)

lemma Feeding_addItem_always_appends:
  "\<forall>d \<in> set feeds. map_of d ''community'' = None \<Longrightarrow>
   Feeding_addItem feeds fresh item feed =
     (Inr ''An item has been added to a feed!'',
      feeds @ [[(''_id'', VId fresh), (''feed'', VId feed), (''item'', VId item)]])"
  by (simp add: Feeding_addItem_def Feeding_assertItemNotInFeed_def Feeding_readOne_community
      createOne_def)

lemma Feeding_deleteItem_always_fails:
  "\<forall>d \<in> set feeds. map_of d ''community'' = None \<Longrightarrow>
   Feeding_deleteItem feeds item feed = (Inl (FeedItemNoMatchError feed item), feeds)"
  by (simp add: Feeding_deleteItem_def Feeding_assertItemInFeed_def Feeding_readOne_community)

text \<open>
  \<open>assertItemIsNotFeatured\<close> throws for every item, featured or not, and
  \<open>assertItemIsFeatured\<close> for none. Neither is awaited: the caller of \<open>promote\<close> and
  \<open>depromote\<close> never receives a rejection, every \<open>promote\<close> leaves a
  \<open>NotAllowedError\<close> unhandled, and no \<open>depromote\<close> leaves any.
\<close>

lemma Featuring_assertions:
  "Featuring_assertItemIsNotFeatured features item = Inl (NotAllowedError ''Item is already featured!'')"
  "Featuring_assertItemIsFeatured features item = Inr ()"
  by (simp_all add: Featuring_assertItemIsNotFeatured_def Featuring_assertItemIsFeatured_def
      unawaited_def truthy_def)

lemma Featuring_promote_never_fails:
  "\<exists>msg. fst (Featuring_promote features minimumAttention fresh item attention) = Inr msg"
  by (simp add: Featuring_promote_def unawaited_def Let_def)

lemma Featuring_depromote_never_fails:
  "\<exists>msg. fst (Featuring_depromote features minimumAttention item attention) = Inr msg"
  by (simp add: Featuring_depromote_def unawaited_def Let_def)

lemma Featuring_promote_always_unhandled:
  "Featuring_promote_unhandled features item = [NotAllowedError ''Item is already featured!'']"
  by (simp add: Featuring_promote_unhandled_def rejections_def Featuring_assertions)

lemma Featuring_depromote_none_unhandled:
  "Featuring_depromote_unhandled features item = []"
  by (simp add: Featuring_depromote_unhandled_def rejections_def Featuring_assertions)

text \<open>
  C1. \<open>addItem\<close> on a pair that is present, \<open>promote\<close> on a featured item and
  \<open>depromote\<close> on an item that is not featured should fail (NotAllowed, NotAllowed,
  NotFound) and leave the collection as it was; \<open>deleteItem\<close> on an absent pair should
  fail with NotFound. Evaluated on the code: \<open>addItem\<close> succeeds and stores the pair a
  second time; \<open>promote\<close> hands its caller no rejection and stores the item a second time
  (the \<open>NotAllowedError\<close> of its assertion is left unhandled, as for an item that is
  not featured); \<open>depromote\<close> succeeds; only \<open>deleteItem\<close> fails, with
  \<open>FeedItemNoMatchError\<close> (a NotFound error), and leaves the collection unchanged.
\<close>

theorem toggle_actions_in_the_wrong_state:
  "Feeding_addItem
     [[(''_id'', VId (ObjectId ''d1'')), (''feed'', VId hikers), (''item'', VId item_X)]]
     (ObjectId ''d2'') item_X hikers
   = (Inr ''An item has been added to a feed!'',
      [[(''_id'', VId (ObjectId ''d1'')), (''feed'', VId hikers), (''item'', VId item_X)],
       [(''_id'', VId (ObjectId ''d2'')), (''feed'', VId hikers), (''item'', VId item_X)]])
   \<and> Feeding_deleteItem [] item_X hikers = (Inl (FeedItemNoMatchError hikers item_X), [])
   \<and> kind_of (FeedItemNoMatchError hikers item_X) = NotFound
   \<and> Featuring_promote [[(''_id'', VId (ObjectId ''e1'')), (''item'', VId item_X)]]
        (Num 10) (ObjectId ''e2'') item_X (Num 15)
      = (Inr ''An item has been added to a feed!'',
         [[(''_id'', VId (ObjectId ''e1'')), (''item'', VId item_X)],
          [(''_id'', VId (ObjectId ''e2'')), (''item'', VId item_X)]])
   \<and> Featuring_depromote [] (Num 10) item_X (Num 5) = (Inr ''An item has been depromoted'', [])"
  by (simp add: Feeding_addItem_def Feeding_assertItemNotInFeed_def Feeding_deleteItem_def
      Feeding_assertItemInFeed_def Featuring_promote_def Featuring_depromote_def num_ge_def
      collection_defs)

section \<open>Favoriting\<close>

text \<open>
  The caller of \<open>favorite\<close> and \<open>unfavorite\<close> never receives a rejection: the outcome
  of the assertion is not awaited. Where the assertion throws, its error is left
  unhandled.
\<close>

lemma Favoriting_unhandled:
  "Favoriting_favorite_unhandled
     [[(''_id'', VId (ObjectId ''f1'')), (''user'', VId alice), (''item'', VId item_X)]]
     alice item_X = [FavoriteItemExistsError alice item_X]"
  "Favoriting_unfavorite_unhandled [] alice item_X = [FavoriteItemNoMatchError alice item_X]"
  by (simp_all add: Favoriting_favorite_unhandled_def Favoriting_unfavorite_unhandled_def
      Favoriting_assertItemIsNotFavorite_def Favoriting_assertItemIsFavorite_def
      rejections_def readOne_def matches_def)

lemma Favoriting_favorite_always_appends:
  "Favoriting_favorite favorites fresh user item =
     (Inr (''A user has favorited an item!'',
           readOne (favorites @ [[(''_id'', VId fresh), (''user'', VId user), (''item'', VId item)]])
             [(''_id'', VId fresh)]),
      favorites @ [[(''_id'', VId fresh), (''user'', VId user), (''item'', VId item)]])"
  by (simp add: Favoriting_favorite_def unawaited_def createOne_def)

lemma Favoriting_unfavorite_never_fails:
  "fst (Favoriting_unfavorite favorites user item) = Inr ''A user has unfavorited an item!''"
  by (simp add: Favoriting_unfavorite_def unawaited_def)

text \<open>
  The round trip of Favoriting: on a collection without the pair, \<open>favorite\<close> then
  \<open>unfavorite\<close> gives the collection back.
\<close>

lemma Favoriting_round_trip:
  assumes "readOne favorites [(''user'', VId user), (''item'', VId item)] = None"
  shows "snd (Favoriting_unfavorite (snd (Favoriting_favorite favorites fresh user item)) user item)
         = favorites"
proof -
  let ?q = "[(''user'', VId user), (''item'', VId item)]"
  let ?d = "[(''_id'', VId fresh), (''user'', VId user), (''item'', VId item)]"
  have none: "find (matches ?q) favorites = None"
    using assms by (simp add: readOne_def)
  have new: "matches ?q ?d"
    by (simp add: matches_def)
  have "deleteOne (favorites @ [?d]) ?q = favorites"
    using none new by (rule deleteOne_last)
  then show ?thesis
    by (simp add: Favoriting_favorite_always_appends Favoriting_unfavorite_def unawaited_def)
qed

text \<open>
  C2. After \<open>favorite(u, X)\<close>, a second \<open>favorite(u, X)\<close> should fail with NotAllowed
  and store nothing, \<open>unfavorite(u, X)\<close> should then remove the pair, and one more
  \<open>unfavorite(u, X)\<close> should fail with NotFound. Evaluated on the code from the empty
  collection: the second \<open>favorite\<close> hands its caller no rejection and stores a second
  document; the first \<open>unfavorite\<close> removes one of the two, so the pair is still stored;
  the second removes the other; the third, on the empty collection, hands its caller no
  rejection either. The errors the claim expects are thrown by the assertions and left
  unhandled (\<open>Favoriting_unhandled\<close>).
\<close>

theorem favorite_twice_unfavorite_thrice:
  "Favoriting_favorite [] (ObjectId ''f1'') alice item_X
     = (Inr (''A user has favorited an item!'',
             Some [(''_id'', VId (ObjectId ''f1'')), (''user'', VId alice), (''item'', VId item_X)]),
        [[(''_id'', VId (ObjectId ''f1'')), (''user'', VId alice), (''item'', VId item_X)]])
   \<and> Favoriting_favorite
        [[(''_id'', VId (ObjectId ''f1'')), (''user'', VId alice), (''item'', VId item_X)]]
        (ObjectId ''f2'') alice item_X
     = (Inr (''A user has favorited an item!'',
             Some [(''_id'', VId (ObjectId ''f2'')), (''user'', VId alice), (''item'', VId item_X)]),
        [[(''_id'', VId (ObjectId ''f1'')), (''user'', VId alice), (''item'', VId item_X)],
         [(''_id'', VId (ObjectId ''f2'')), (''user'', VId alice), (''item'', VId item_X)]])
   \<and> Favoriting_unfavorite
        [[(''_id'', VId (ObjectId ''f1'')), (''user'', VId alice), (''item'', VId item_X)],
         [(''_id'', VId (ObjectId ''f2'')), (''user'', VId alice), (''item'', VId item_X)]]
        alice item_X
     = (Inr ''A user has unfavorited an item!'',
        [[(''_id'', VId (ObjectId ''f2'')), (''user'', VId alice), (''item'', VId item_X)]])
   \<and> Favoriting_unfavorite
        [[(''_id'', VId (ObjectId ''f2'')), (''user'', VId alice), (''item'', VId item_X)]]
        alice item_X
     = (Inr ''A user has unfavorited an item!'', [])
   \<and> Favoriting_unfavorite [] alice item_X = (Inr ''A user has unfavorited an item!'', [])"
  by (simp add: Favoriting_favorite_def Favoriting_unfavorite_def collection_defs)

section \<open>Feeding: the round trip\<close>

text \<open>
  C6. On a state without the pair, the add action followed by the remove action should
  give the stored state back, for Feeding and for Favoriting. For Favoriting it does
  (\<open>Favoriting_round_trip\<close>). Evaluated on the code of Feeding from the empty
  collection: \<open>addItem\<close> stores the pair, and \<open>deleteItem\<close> of the same pair fails with
  \<open>FeedItemNoMatchError\<close> and removes nothing, so the collection still holds the pair.
\<close>

theorem Feeding_add_then_delete:
  "Feeding_addItem [] (ObjectId ''d1'') item_X hikers
     = (Inr ''An item has been added to a feed!'',
        [[(''_id'', VId (ObjectId ''d1'')), (''feed'', VId hikers), (''item'', VId item_X)]])
   \<and> Feeding_deleteItem
        [[(''_id'', VId (ObjectId ''d1'')), (''feed'', VId hikers), (''item'', VId item_X)]]
        item_X hikers
     = (Inl (FeedItemNoMatchError hikers item_X),
        [[(''_id'', VId (ObjectId ''d1'')), (''feed'', VId hikers), (''item'', VId item_X)]])"
  by (simp add: Feeding_addItem_def Feeding_assertItemNotInFeed_def Feeding_deleteItem_def
      Feeding_assertItemInFeed_def collection_defs)

section \<open>Featuring: the attention threshold\<close>

lemma num_lt_not_ge: "num_lt a b \<Longrightarrow> \<not> num_ge a b"
  by (simp add: num_ge_def)

lemma num_ge_not_lt: "num_ge a b \<Longrightarrow> \<not> num_lt a b"
  by (simp add: num_ge_def)

text \<open>
  What \<open>promote\<close> and \<open>depromote\<close> do and settle to where the process goes on after
  the rejection \<open>promote\<close> leaves unhandled: below the threshold \<open>promote\<close> gives the
  informational message and stores nothing, at or above it the item is stored; at or
  above the threshold \<open>depromote\<close> gives its informational message and changes nothing.
\<close>

lemma Featuring_threshold_rejection_dropped:
  "(readOne features [(''item'', VId item)] = None \<and> num_lt attention minimumAttention \<longrightarrow>
      Featuring_promote features minimumAttention fresh item attention
        = (Inr ''The item didn't meet the minimum attention.'', features))
   \<and> (readOne features [(''item'', VId item)] = None \<and> num_ge attention minimumAttention \<longrightarrow>
        fst (Featuring_promote features minimumAttention fresh item attention)
          = Inr ''An item has been added to a feed!''
        \<and> readOne (snd (Featuring_promote features minimumAttention fresh item attention))
             [(''item'', VId item)]
          = Some [(''_id'', VId fresh), (''item'', VId item)])
   \<and> (readOne features [(''item'', VId item)] \<noteq> None \<and> num_ge attention minimumAttention \<longrightarrow>
        Featuring_depromote features minimumAttention item attention
          = (Inr ''The item still has the minimum attention.'', features))"
proof (intro conjI impI)
  assume "readOne features [(''item'', VId item)] = None \<and> num_lt attention minimumAttention"
  then show "Featuring_promote features minimumAttention fresh item attention
      = (Inr ''The item didn't meet the minimum attention.'', features)"
    by (simp add: Featuring_promote_def unawaited_def num_lt_not_ge)
next
  assume "readOne features [(''item'', VId item)] = None \<and> num_ge attention minimumAttention"
  then show "fst (Featuring_promote features minimumAttention fresh item attention)
      = Inr ''An item has been added to a feed!''"
    by (simp add: Featuring_promote_def unawaited_def)
next
  assume a: "readOne features [(''item'', VId item)] = None \<and> num_ge attention minimumAttention"
  then have "find (matches [(''item'', VId item)]) features = None"
    by (simp add: readOne_def)
  moreover have "matches [(''item'', VId item)] [(''_id'', VId fresh), (''item'', VId item)]"
    by (simp add: matches_def)
  ultimately have "find (matches [(''item'', VId item)])
      (features @ [[(''_id'', VId fresh), (''item'', VId item)]])
      = Some [(''_id'', VId fresh), (''item'', VId item)]"
    by (rule find_append_new)
  with a show "readOne (snd (Featuring_promote features minimumAttention fresh item attention))
      [(''item'', VId item)] = Some [(''_id'', VId fresh), (''item'', VId item)]"
    by (simp add: Featuring_promote_def unawaited_def readOne_def createOne_def)
next
  assume "readOne features [(''item'', VId item)] \<noteq> None \<and> num_ge attention minimumAttention"
  then show "Featuring_depromote features minimumAttention item attention
      = (Inr ''The item still has the minimum attention.'', features)"
    by (simp add: Featuring_depromote_def unawaited_def num_ge_not_lt)
qed


section \<open>Favoriting: counting\<close>

lemma matches_single: "matches [(k, v)] d = (map_of d k = Some v)"
  by (simp add: matches_def)

text \<open>
  C10. \<open>getNumFavorites(item)\<close> never fails: it returns the number of favorite documents
  whose \<open>item\<close> field is the given identifier, and 0 when no document has it.
\<close>

theorem Favoriting_getNumFavorites_counts:
  "Favoriting_getNumFavorites favorites item
     = Inr (length (filter (\<lambda>d. map_of d ''item'' = Some (VId item)) favorites))
   \<and> ((\<forall>d \<in> set favorites. map_of d ''item'' \<noteq> Some (VId item)) \<longrightarrow>
        Favoriting_getNumFavorites favorites item = Inr 0)"
proof -
  have "matches [(''item'', VId item)] = (\<lambda>d. map_of d ''item'' = Some (VId item))"
    by (rule ext) (simp add: matches_single)
  then have count: "Favoriting_getNumFavorites favorites item
      = Inr (length (filter (\<lambda>d. map_of d ''item'' = Some (VId item)) favorites))"
    by (simp add: Favoriting_getNumFavorites_def readMany_def)
  have "\<forall>d \<in> set favorites. map_of d ''item'' \<noteq> Some (VId item) \<Longrightarrow>
      filter (\<lambda>d. map_of d ''item'' = Some (VId item)) favorites = []"
    by (simp add: filter_empty_conv)
  with count show ?thesis by simp
qed

theorem Favoriting_getNumFavorites_counts_witness:
  "Favoriting_getNumFavorites
     [[(''_id'', VId (ObjectId ''f1'')), (''user'', VId alice), (''item'', VId item_X)],
      [(''_id'', VId (ObjectId ''f2'')), (''user'', VId bob), (''item'', VId item_X)],
      [(''_id'', VId (ObjectId ''f3'')), (''user'', VId bob), (''item'', VId (ObjectId ''99''))]]
     item_X = Inr 2
   \<and> Favoriting_getNumFavorites
       [[(''_id'', VId (ObjectId ''f1'')), (''user'', VId alice), (''item'', VId item_X)]]
       (ObjectId ''99'') = Inr 0
   \<and> Favoriting_getNumFavorites [] item_X = Inr 0"
  using
    Favoriting_getNumFavorites_counts [of
      "[[(''_id'', VId (ObjectId ''f1'')), (''user'', VId alice), (''item'', VId item_X)],
        [(''_id'', VId (ObjectId ''f2'')), (''user'', VId bob), (''item'', VId item_X)],
        [(''_id'', VId (ObjectId ''f3'')), (''user'', VId bob), (''item'', VId (ObjectId ''99''))]]"
      item_X]
    Favoriting_getNumFavorites_counts [of
      "[[(''_id'', VId (ObjectId ''f1'')), (''user'', VId alice), (''item'', VId item_X)]]"
      "ObjectId ''99''"]
    Favoriting_getNumFavorites_counts [of "[]" item_X]
  by simp

section \<open>Communiting: delete\<close>

text \<open>
  C9. \<open>delete(_id)\<close> never fails. For every identifier it issues \<open>deleteOne({_id})\<close> and
  returns "Community Succesfully Deleted!", and so does a second call on the resulting
  collection; when no community has the identifier the collection is left as it is. (The
  text of \<open>delete\<close> is the same in both revisions.)
\<close>

theorem Communiting_delete_never_fails:
  "fst (Communiting_delete communities oid) = Inr ''Community Succesfully Deleted!''
   \<and> snd (Communiting_delete communities oid) = deleteOne communities [(''_id'', VId oid)]
   \<and> fst (Communiting_delete (snd (Communiting_delete communities oid)) oid)
       = Inr ''Community Succesfully Deleted!''
   \<and> (Communiting_getCommunityByID communities oid = None \<longrightarrow>
        Communiting_delete communities oid = (Inr ''Community Succesfully Deleted!'', communities))"
  by (simp add: Communiting_delete_def Communiting_getCommunityByID_def readOne_def
      deleteOne_no_match)

theorem Communiting_delete_never_fails_witness:
  "Communiting_getCommunityByID [] hikers = None
   \<and> Communiting_delete [] hikers = (Inr ''Community Succesfully Deleted!'', [])"
proof -
  have none: "Communiting_getCommunityByID [] hikers = None"
    by (simp add: Communiting_getCommunityByID_def readOne_def)
  show ?thesis
    using none Communiting_delete_never_fails [of "[]" hikers] by simp
qed

section \<open>The enrichment of CommunityAuthorNoMatchError\<close>

text \<open>
  C8. A \<open>CommunityAuthorNoMatchError\<close> made of a raw user identifier and a raw community
  identifier, handed to the resolver registered for its class, gives the message of its
  template with the user's name, as \<open>getUserById\<close> resolves it, in place of \<open>{0}\<close> and
  the community identifier in place of \<open>{1}\<close>; without the resolver the message starts
  with the raw user identifier.
\<close>

theorem CommunityAuthorNoMatchError_enriched:
  "getUserById author = Inr user \<Longrightarrow>
   handleError (Responses_registry getUserById) (CommunityAuthorNoMatchError author oid)
     = Inr (username user @ '' is not the author of community '' @ toHexString oid)
   \<and> message (CommunityAuthorNoMatchError author oid)
     = toHexString author @ '' is not the author of community '' @ toHexString oid"
  by (simp add: handleError_def Responses_registry_def registerError_def with_username_def
      message_def formatWith_def is_digit_def nat_of_digits_def)

theorem CommunityAuthorNoMatchError_enriched_witness:
  "handleError (Responses_registry (\<lambda>i. if i = alice then Inr \<lparr>username = ''Alice''\<rparr>
       else Inl (NotFoundError ''User not found!'')))
     (CommunityAuthorNoMatchError alice hikers)
     = Inr ''Alice is not the author of community c0''
   \<and> message (CommunityAuthorNoMatchError alice hikers)
     = ''a11ce is not the author of community c0''"
  using CommunityAuthorNoMatchError_enriched [of
      "\<lambda>i. if i = alice then Inr \<lparr>username = ''Alice''\<rparr> else Inl (NotFoundError ''User not found!'')"
      alice "\<lparr>username = ''Alice''\<rparr>" hikers]
  by simp

section \<open>Communiting: titles\<close>

text \<open>The revision of \<open>part_000\<close> awaits the assertion and rejects a title that is taken.\<close>

lemma Communiting_create_part000_title_taken:
  "Communiting_getCommunityByTitle communities title \<noteq> None \<Longrightarrow>
   Communiting_create_part000 communities fresh author2 title description
     = (Inl (NotAllowedError ''Community already exists!''), communities)"
  by (simp add: Communiting_create_part000_def Communiting_assertCommunityNotExists_part000_def)

text \<open>In \<open>communiting.ts\<close> the error of the assertion is left unhandled.\<close>

lemma Communiting_create_title_taken_unhandled:
  "Communiting_create_unhandled
     [[(''_id'', VId hikers), (''author'', VId alice), (''title'', VStr ''Hikers''),
       (''description'', VStr ''desc''), (''items'', VIds []), (''members'', VIds [alice])]]
     ''Hikers'' = [NotAllowedError ''Community already exists'']"
  by (simp add: Communiting_create_unhandled_def Communiting_assertCommunityNotExists_def
      Communiting_getCommunityByTitle_def rejections_def readOne_def matches_def)

text \<open>
  C3. Where a community with title \<open>t\<close> exists, \<open>create(author2, t, description)\<close>
  should fail with NotAllowed and store nothing. Evaluated on the code of
  \<open>communiting.ts\<close>, with the community "Hikers" of alice stored and bob creating
  "Hikers": the caller receives no rejection (the \<open>NotAllowedError\<close> is left
  unhandled) and a second community with the title is stored. The revision of
  \<open>part_000\<close>, on its own document of the same community, fails with
  \<open>NotAllowedError\<close> and stores nothing.
\<close>

theorem create_with_a_title_that_exists:
  "Communiting_create
     [[(''_id'', VId hikers), (''author'', VId alice), (''title'', VStr ''Hikers''),
       (''description'', VStr ''desc''), (''items'', VIds []), (''members'', VIds [alice])]]
     (ObjectId ''c1'') bob ''Hikers'' ''other''
   = (Inr (''Community Succesfully Created!'',
           Some [(''_id'', VId (ObjectId ''c1'')), (''author'', VId bob), (''title'', VStr ''Hikers''),
                 (''description'', VStr ''other''), (''items'', VIds []), (''members'', VIds [bob])]),
      [[(''_id'', VId hikers), (''author'', VId alice), (''title'', VStr ''Hikers''),
        (''description'', VStr ''desc''), (''items'', VIds []), (''members'', VIds [alice])],
       [(''_id'', VId (ObjectId ''c1'')), (''author'', VId bob), (''title'', VStr ''Hikers''),
        (''description'', VStr ''other''), (''items'', VIds []), (''members'', VIds [bob])]])
   \<and> Communiting_create_part000
       [[(''_id'', VId hikers), (''author'', VId alice), (''title'', VStr ''Hikers''),
         (''description'', VStr ''desc''), (''members'', VIds [alice])]]
       (ObjectId ''c1'') bob ''Hikers'' ''other''
     = (Inl (NotAllowedError ''Community already exists!''),
        [[(''_id'', VId hikers), (''author'', VId alice), (''title'', VStr ''Hikers''),
          (''description'', VStr ''desc''), (''members'', VIds [alice])]])"
  by (simp add: Communiting_create_def Communiting_create_part000_def
      Communiting_assertCommunityNotExists_part000_def Communiting_getCommunityByTitle_def
      collection_defs)

section \<open>Communiting: joining and leaving\<close>

lemmas Communiting_defs =
  Communiting_getCommunityByID_def Communiting_getNumMembers_def
  Communiting_assertUserInCommunity_def Communiting_assertUserNotInCommunity_def
  Communiting_assertUserNotInCommunity_part000_def
  Communiting_join_def Communiting_leave_def Communiting_join_part000_def
  Communiting_leave_part000_def optional_members_def members_of_def doesnt_exist_def

text \<open>
  Scenario 2 of the specification on the revision of \<open>part_000\<close>, for any two distinct
  users and any identifier of the new community: two members after the join, one after
  the leave, and the second leave fails with a NotFound error and changes nothing.
\<close>

lemma Communiting_part000_scenario_2:
  fixes a b c :: ObjectId and title description :: string
  assumes "a \<noteq> b"
  defines "s1 \<equiv> snd (Communiting_create_part000 [] c a title description)"
  defines "s2 \<equiv> snd (Communiting_join_part000 s1 b c)"
  defines "s3 \<equiv> snd (Communiting_leave_part000 s2 b c)"
  shows "Communiting_getNumMembers s1 c = Inr 1"
    and "fst (Communiting_join_part000 s1 b c) = Inr ''A user has joined the community!''"
    and "Communiting_getNumMembers s2 c = Inr 2"
    and "fst (Communiting_leave_part000 s2 b c) = Inr ''A user has left the community!''"
    and "Communiting_getNumMembers s3 c = Inr 1"
    and "Communiting_leave_part000 s3 b c = (Inl (CommunityUserNoMatchError b c), s3)"
proof -
  have s1: "s1 = [[(''_id'', VId c), (''author'', VId a), (''title'', VStr title),
      (''description'', VStr description), (''members'', VIds [a])]]"
    by (simp add: s1_def Communiting_create_part000_def
        Communiting_assertCommunityNotExists_part000_def Communiting_getCommunityByTitle_def
        collection_defs)
  have s2: "s2 = [[(''_id'', VId c), (''author'', VId a), (''title'', VStr title),
      (''description'', VStr description), (''members'', VIds [a, b])]]"
    using assms(1) by (auto simp: s2_def s1 Communiting_defs collection_defs)
  have s3: "s3 = s1"
    using assms(1) by (cases a; cases b) (auto simp: s3_def s2 s1 Communiting_defs collection_defs)
  show "Communiting_getNumMembers s1 c = Inr 1"
    by (simp add: s1 Communiting_defs collection_defs)
  show "fst (Communiting_join_part000 s1 b c) = Inr ''A user has joined the community!''"
    using assms(1) by (auto simp: s1 Communiting_defs collection_defs)
  show "Communiting_getNumMembers s2 c = Inr 2"
    by (simp add: s2 Communiting_defs collection_defs)
  show "fst (Communiting_leave_part000 s2 b c) = Inr ''A user has left the community!''"
    using assms(1) by (auto simp: s2 Communiting_defs collection_defs)
  show "Communiting_getNumMembers s3 c = Inr 1"
    by (simp add: s3 s1 Communiting_defs collection_defs)
  show "Communiting_leave_part000 s3 b c = (Inl (CommunityUserNoMatchError b c), s3)"
    using assms(1) by (auto simp: s3 s1 Communiting_defs collection_defs)
qed

text \<open>
  In \<open>communiting.ts\<close>, \<open>join\<close> and \<open>leave\<close> fail for every user whose identifier is
  not the identifier of a community, whatever the community asked for.
\<close>

lemma Communiting_join_user_is_no_community:
  "Communiting_getCommunityByID communities user = None \<Longrightarrow>
   Communiting_join communities user oid = (Inl (doesnt_exist user), communities)"
  by (simp add: Communiting_join_def Communiting_assertUserNotInCommunity_def)

lemma Communiting_leave_user_is_no_community:
  "Communiting_getCommunityByID communities user = None \<Longrightarrow>
   Communiting_leave communities user oid = (Inl (doesnt_exist user), communities)"
  by (simp add: Communiting_leave_def Communiting_assertUserInCommunity_def)

text \<open>
  C5. From the empty state, after alice creates a community and bob joins it,
  \<open>getNumMembers\<close> should return 2, after bob leaves 1, and a second leave should fail
  with NotFound. Evaluated on the code of \<open>communiting.ts\<close>: the \<open>join\<close> of bob fails
  with \<open>NotFoundError\<close> "Community b0b doesn't exist!" (the assertion takes bob's
  identifier for the community's), nothing is stored, and \<open>getNumMembers\<close> returns 1.
  The revision of \<open>part_000\<close> behaves as the claim says
  (\<open>Communiting_part000_scenario_2\<close>).
\<close>

theorem alice_creates_bob_joins:
  "snd (Communiting_create [] hikers alice ''Hikers'' ''desc'')
     = [[(''_id'', VId hikers), (''author'', VId alice), (''title'', VStr ''Hikers''),
         (''description'', VStr ''desc''), (''items'', VIds []), (''members'', VIds [alice])]]
   \<and> Communiting_join
        [[(''_id'', VId hikers), (''author'', VId alice), (''title'', VStr ''Hikers''),
          (''description'', VStr ''desc''), (''items'', VIds []), (''members'', VIds [alice])]]
        bob hikers
     = (Inl (NotFoundError ''Community b0b doesn't exist!''),
        [[(''_id'', VId hikers), (''author'', VId alice), (''title'', VStr ''Hikers''),
          (''description'', VStr ''desc''), (''items'', VIds []), (''members'', VIds [alice])]])
   \<and> Communiting_getNumMembers
        [[(''_id'', VId hikers), (''author'', VId alice), (''title'', VStr ''Hikers''),
          (''description'', VStr ''desc''), (''items'', VIds []), (''members'', VIds [alice])]]
        hikers
     = Inr 1"
  by (simp add: Communiting_create_def Communiting_defs collection_defs)

section \<open>Communiting: the author among the members\<close>

lemma checkObjectIdInArray_set: "checkObjectIdInArray x arr = (x \<in> set arr)"
  by (induction arr) auto







lemma authors_createOne:
  "authors_are_members cs \<Longrightarrow> author_in_members ((''_id'', VId fresh) # fs) \<Longrightarrow>
   authors_are_members (snd (createOne cs fresh fs))"
  by (simp add: authors_are_members_def createOne_def)

















end
